theory Spec2Isabelle
  imports Complex_Main "HOL-Library.Log_Nat" "HOL-Library.Sublist"
begin

section \<open>JavaScript numbers\<close>

text \<open>
  A JavaScript number is an IEEE 754 binary64 value. The three special values are
  constructors of their own; a finite value is the rational number it denotes.
  The two zeros are identified: no function of the salary module tells them apart
  (\<open>-0 === 0\<close>, \<open>-0 < 0\<close> is false, and no value is divided by a zero).
\<close>

datatype jsnum = NaN | PInf | NInf | Fin rat

text \<open>
  \<open>ilog2 x\<close> is the binary exponent of a positive rational: the integer \<open>e\<close> with
  \<open>2^e \<le> x < 2^(e+1)\<close>.
\<close>

definition ilog2 :: "rat \<Rightarrow> int" where
  "ilog2 x = (if 1 \<le> x then bitlen \<lfloor>x\<rfloor> - 1 else - bitlen (\<lceil>1 / x\<rceil> - 1))"

text \<open>Rounding to the nearest integer, a tie going to the even one.\<close>

definition round_half_even :: "rat \<Rightarrow> int" where
  "round_half_even y =
     (let f = \<lfloor>y\<rfloor>; r = y - of_int f
      in if r < 1 / 2 then f
         else if 1 / 2 < r then f + 1
         else if even f then f else f + 1)"

text \<open>
  The spacing of binary64 values around \<open>x\<close>: 53 significant bits, and the
  subnormal spacing \<open>2^-1074\<close> below \<open>2^-1022\<close>.
\<close>

definition quantum :: "rat \<Rightarrow> rat" where
  "quantum x = 2 powi (max (ilog2 \<bar>x\<bar>) (- 1022) - 52)"

text \<open>
  \<open>fl x\<close> is the binary64 value of the exact result \<open>x\<close>: round to nearest, ties
  to even, and an infinity once the rounded magnitude reaches \<open>2^1024\<close>.
\<close>

definition fl :: "rat \<Rightarrow> jsnum" where
  "fl x =
     (if x = 0 then Fin 0
      else let q = quantum x; y = of_int (round_half_even (x / q)) * q
           in if 2 ^ 1024 \<le> y then PInf
              else if y \<le> - (2 ^ 1024) then NInf
              else Fin y)"

text \<open>
  A rational is a binary64 value when rounding leaves it alone. The operators below
  return such values only; the theorems hold for every rational argument, and the
  concrete inputs they are evaluated at are binary64 values.
\<close>

definition is_double :: "rat \<Rightarrow> bool" where
  "is_double x \<longleftrightarrow> fl x = Fin x"

section \<open>Arithmetic and comparison on numbers\<close>

text \<open>
  Each operator computes the exact result and rounds it once with \<open>fl\<close>; the
  special values follow IEEE 754. A literal such as \<open>0.001\<close> denotes the binary64
  value nearest to it, \<open>fl (1 / 1000)\<close>; \<open>0\<close> and \<open>100\<close> are exact.
\<close>

fun js_sub :: "jsnum \<Rightarrow> jsnum \<Rightarrow> jsnum" where
  "js_sub (Fin a) (Fin b) = fl (a - b)"
| "js_sub NaN _ = NaN"
| "js_sub _ NaN = NaN"
| "js_sub PInf PInf = NaN"
| "js_sub NInf NInf = NaN"
| "js_sub PInf _ = PInf"
| "js_sub NInf _ = NInf"
| "js_sub (Fin a) PInf = NInf"
| "js_sub (Fin a) NInf = PInf"

fun js_add :: "jsnum \<Rightarrow> jsnum \<Rightarrow> jsnum" where
  "js_add (Fin a) (Fin b) = fl (a + b)"
| "js_add NaN _ = NaN"
| "js_add _ NaN = NaN"
| "js_add PInf NInf = NaN"
| "js_add NInf PInf = NaN"
| "js_add PInf _ = PInf"
| "js_add NInf _ = NInf"
| "js_add (Fin a) PInf = PInf"
| "js_add (Fin a) NInf = NInf"

fun js_mul :: "jsnum \<Rightarrow> jsnum \<Rightarrow> jsnum" where
  "js_mul (Fin a) (Fin b) = fl (a * b)"
| "js_mul NaN _ = NaN"
| "js_mul _ NaN = NaN"
| "js_mul PInf (Fin b) = (if b = 0 then NaN else if 0 < b then PInf else NInf)"
| "js_mul NInf (Fin b) = (if b = 0 then NaN else if 0 < b then NInf else PInf)"
| "js_mul (Fin a) PInf = (if a = 0 then NaN else if 0 < a then PInf else NInf)"
| "js_mul (Fin a) NInf = (if a = 0 then NaN else if 0 < a then NInf else PInf)"
| "js_mul PInf PInf = PInf"
| "js_mul NInf NInf = PInf"
| "js_mul PInf NInf = NInf"
| "js_mul NInf PInf = NInf"

text \<open>A zero divisor is the positive zero (the zeros are identified).\<close>

fun js_div :: "jsnum \<Rightarrow> jsnum \<Rightarrow> jsnum" where
  "js_div (Fin a) (Fin b) =
     (if b = 0 then (if a = 0 then NaN else if 0 < a then PInf else NInf)
      else fl (a / b))"
| "js_div NaN _ = NaN"
| "js_div _ NaN = NaN"
| "js_div PInf (Fin b) = (if 0 \<le> b then PInf else NInf)"
| "js_div NInf (Fin b) = (if 0 \<le> b then NInf else PInf)"
| "js_div (Fin a) _ = Fin 0"
| "js_div _ _ = NaN"

text \<open>\<open>Math.abs\<close>.\<close>

fun js_abs :: "jsnum \<Rightarrow> jsnum" where
  "js_abs (Fin a) = Fin \<bar>a\<bar>"
| "js_abs NaN = NaN"
| "js_abs _ = PInf"

text \<open>
  \<open>Math.round\<close>: the nearest integer, a tie going up (towards \<open>+\<infinity>\<close>). The result
  is computed exactly; it is a binary64 value whenever the argument is one.
\<close>

fun js_round :: "jsnum \<Rightarrow> jsnum" where
  "js_round (Fin a) = Fin (of_int \<lfloor>a + 1 / 2\<rfloor>)"
| "js_round x = x"

text \<open>\<open><\<close>, \<open>>\<close>, \<open><=\<close> and \<open>===\<close> on numbers: every comparison with \<open>NaN\<close> is false.\<close>

fun js_lt :: "jsnum \<Rightarrow> jsnum \<Rightarrow> bool" where
  "js_lt (Fin a) (Fin b) \<longleftrightarrow> a < b"
| "js_lt NaN _ \<longleftrightarrow> False"
| "js_lt _ NaN \<longleftrightarrow> False"
| "js_lt _ NInf \<longleftrightarrow> False"
| "js_lt PInf _ \<longleftrightarrow> False"
| "js_lt NInf _ \<longleftrightarrow> True"
| "js_lt _ PInf \<longleftrightarrow> True"

definition js_gt :: "jsnum \<Rightarrow> jsnum \<Rightarrow> bool" where
  "js_gt x y \<longleftrightarrow> js_lt y x"

definition js_eq :: "jsnum \<Rightarrow> jsnum \<Rightarrow> bool" where
  "js_eq x y \<longleftrightarrow> x \<noteq> NaN \<and> x = y"

definition js_le :: "jsnum \<Rightarrow> jsnum \<Rightarrow> bool" where
  "js_le x y \<longleftrightarrow> js_lt x y \<or> js_eq x y"

text \<open>\<open>Number.isFinite\<close> on a number.\<close>

fun js_isFinite :: "jsnum \<Rightarrow> bool" where
  "js_isFinite (Fin a) \<longleftrightarrow> True"
| "js_isFinite _ \<longleftrightarrow> False"

section \<open>JavaScript values and thrown errors\<close>

text \<open>
  The arguments of the exported functions are untyped; \<open>typeof v === 'number'\<close> holds
  for \<open>JNum\<close> only. A \<open>throw new Error(msg)\<close> is the left summand of the result.
  Strings are byte strings (UTF-8), so the rupee sign U+20B9 is three characters.
\<close>

datatype jsval = JNum jsnum | JStr string | JBool bool | JNull | JUndefined

datatype error = Error string

fun is_number :: "jsval \<Rightarrow> bool" where
  "is_number (JNum n) \<longleftrightarrow> True"
| "is_number _ \<longleftrightarrow> False"

text \<open>
  The number held by a value whose type has been checked; the functions below read it
  only after \<open>typeof\<close> has excluded every other value.
\<close>

fun num_of :: "jsval \<Rightarrow> jsnum" where
  "num_of (JNum n) = n"
| "num_of _ = NaN"

definition rupee :: string where
  "rupee = [CHR 0xE2, CHR 0x82, CHR 0xB9]"

text \<open>A parameter with a default value: \<open>None\<close> is an omitted argument.\<close>

fun or_default :: "'a option \<Rightarrow> 'a \<Rightarrow> 'a" where
  "or_default None d = d"
| "or_default (Some x) d = x"

section \<open>The salary calculation module\<close>

definition calculateRemainingSalary :: "jsval \<Rightarrow> jsval \<Rightarrow> error + jsnum" where
  "calculateRemainingSalary totalMonthlySalary advanceAmountPaid =
     (if \<not> is_number totalMonthlySalary \<or> \<not> is_number advanceAmountPaid
      then Inl (Error ''Salary amounts must be numbers'')
      else if js_lt (num_of totalMonthlySalary) (Fin 0)
      then Inl (Error ''Total monthly salary cannot be negative'')
      else if js_lt (num_of advanceAmountPaid) (Fin 0)
      then Inl (Error ''Advance amount paid cannot be negative'')
      else if js_gt (num_of advanceAmountPaid) (num_of totalMonthlySalary)
      then Inl (Error ''Advance amount cannot exceed total monthly salary'')
      else let remaining = js_sub (num_of totalMonthlySalary) (num_of advanceAmountPaid)
           in Inr (js_div (js_round (js_mul remaining (Fin 100))) (Fin 100)))"

definition determinePaymentStatus :: "jsval \<Rightarrow> jsval \<Rightarrow> error + string" where
  "determinePaymentStatus totalMonthlySalary advanceAmountPaid =
     (case calculateRemainingSalary totalMonthlySalary advanceAmountPaid of
        Inl e \<Rightarrow> Inl e
      | Inr remainingSalary \<Rightarrow>
          if js_eq remainingSalary (Fin 0) then Inr ''Paid''
          else if js_gt (num_of advanceAmountPaid) (Fin 0) \<and> js_gt remainingSalary (Fin 0)
          then Inr ''Partially Paid''
          else if js_eq (num_of advanceAmountPaid) (Fin 0) then Inr ''Pending''
          else Inl (Error ''Unable to determine payment status with given inputs''))"

definition validateMonetaryAmount :: "jsval \<Rightarrow> string option \<Rightarrow> error + bool" where
  "validateMonetaryAmount amount fieldName_opt =
     (let fieldName = or_default fieldName_opt ''amount''
      in if \<not> is_number amount then Inl (Error (fieldName @ '' must be a number''))
         else if \<not> js_isFinite (num_of amount)
         then Inl (Error (fieldName @ '' must be a finite number''))
         else if js_lt (num_of amount) (Fin 0)
         then Inl (Error (fieldName @ '' cannot be negative''))
         else let rounded = js_div (js_round (js_mul (num_of amount) (Fin 100))) (Fin 100)
              in if js_gt (js_abs (js_sub (num_of amount) rounded)) (fl (1 / 1000))
                 then Inl (Error (fieldName @ '' must have at most 2 decimal places''))
                 else Inr True)"

definition validateAdvanceAmount :: "jsval \<Rightarrow> jsval \<Rightarrow> error + bool" where
  "validateAdvanceAmount totalMonthlySalary advanceAmountPaid =
     (case validateMonetaryAmount totalMonthlySalary (Some ''Total monthly salary'') of
        Inl e \<Rightarrow> Inl e
      | Inr _ \<Rightarrow>
         (case validateMonetaryAmount advanceAmountPaid (Some ''Advance amount paid'') of
            Inl e \<Rightarrow> Inl e
          | Inr _ \<Rightarrow>
              if js_gt (num_of advanceAmountPaid) (num_of totalMonthlySalary)
              then Inl (Error ''Advance amount cannot exceed total monthly salary'')
              else Inr True))"

text \<open>
  \<open>formatCurrency\<close> hands a finite amount to the platform's
  \<open>Number.prototype.toLocaleString\<close> (locale \<open>en-IN\<close>, two fraction digits), which
  is not part of the module: it is the parameter \<open>toLocaleString\<close>, any function from
  the amount to its rendering. The symbol defaults to the rupee sign.
\<close>

definition formatCurrency ::
    "(rat \<Rightarrow> string) \<Rightarrow> jsval \<Rightarrow> string option \<Rightarrow> error + string" where
  "formatCurrency toLocaleString amount currency_opt =
     (let currency = or_default currency_opt rupee
      in if \<not> is_number amount \<or> \<not> js_isFinite (num_of amount)
         then Inr (currency @ ''0.00'')
         else Inr (currency @ (case num_of amount of Fin a \<Rightarrow> toLocaleString a | _ \<Rightarrow> [])))"

definition calculateAdvancePercentage :: "jsval \<Rightarrow> jsval \<Rightarrow> error + jsnum" where
  "calculateAdvancePercentage totalMonthlySalary advanceAmountPaid =
     (case validateAdvanceAmount totalMonthlySalary advanceAmountPaid of
        Inl e \<Rightarrow> Inl e
      | Inr _ \<Rightarrow>
          if js_eq (num_of totalMonthlySalary) (Fin 0) then Inr (Fin 0)
          else let percentage =
                     js_mul (js_div (num_of advanceAmountPaid) (num_of totalMonthlySalary)) (Fin 100)
               in Inr (js_div (js_round (js_mul percentage (Fin 100))) (Fin 100)))"

section \<open>The live calculation of the form component\<close>

text \<open>
  \<open>calculateRealTimeValues\<close> reads the two form fields through \<open>parseFloat\<close>; its
  arguments here are the two numbers \<open>parseFloat\<close> returned. \<open>x || 0\<close> replaces
  \<open>NaN\<close> (and zero) by zero. The state it sets is the record it returns.
\<close>

record calculatedValues =
  remainingSalary :: jsnum
  paymentStatus :: string

fun or_zero :: "jsnum \<Rightarrow> jsnum" where
  "or_zero NaN = Fin 0"
| "or_zero x = x"

definition calculateRealTimeValues :: "jsnum \<Rightarrow> jsnum \<Rightarrow> calculatedValues" where
  "calculateRealTimeValues parsedTotal parsedAdvance =
     (let totalSalary = or_zero parsedTotal;
          advanceAmount = or_zero parsedAdvance
      in if js_lt totalSalary (Fin 0) \<or> js_lt advanceAmount (Fin 0)
         then \<lparr>remainingSalary = Fin 0, paymentStatus = ''Invalid''\<rparr>
         else if js_gt advanceAmount totalSalary
         then \<lparr>remainingSalary = Fin 0, paymentStatus = ''Invalid - Advance exceeds total''\<rparr>
         else let remaining = js_sub totalSalary advanceAmount;
                  status =
                    (if js_eq remaining (Fin 0) \<and> js_gt totalSalary (Fin 0) then ''Paid''
                     else if js_gt advanceAmount (Fin 0) \<and> js_gt remaining (Fin 0)
                     then ''Partially Paid''
                     else if js_eq advanceAmount (Fin 0) then ''Pending''
                     else ''Pending'')
              in \<lparr>remainingSalary = js_div (js_round (js_mul remaining (Fin 100))) (Fin 100),
                  paymentStatus = status\<rparr>)"

section \<open>Auxiliary notions of the statements\<close>

text \<open>A number that is zero, positive or \<open>+\<infinity>\<close>: neither negative nor \<open>NaN\<close>.\<close>

definition nonneg_num :: "jsnum \<Rightarrow> bool" where
  "nonneg_num r \<longleftrightarrow> r = PInf \<or> (\<exists>y. r = Fin y \<and> 0 \<le> y)"

text \<open>
  The specification's side of monetary validation: the failure kinds in the order it
  lists them, with the message each one carries for a field label.
\<close>

datatype failure_kind = NotANumber | NotFinite | Negative | ExcessPrecision

fun failure_message :: "failure_kind \<Rightarrow> string \<Rightarrow> error" where
  "failure_message NotANumber l = Error (l @ '' must be a number'')"
| "failure_message NotFinite l = Error (l @ '' must be a finite number'')"
| "failure_message Negative l = Error (l @ '' cannot be negative'')"
| "failure_message ExcessPrecision l = Error (l @ '' must have at most 2 decimal places'')"

fun message_of :: "error \<Rightarrow> string" where
  "message_of (Error m) = m"

text \<open>
  How much rounding an amount to the nearest 0.01 changes it, in exact arithmetic (a
  tie going up), and the exact percentage \<open>advance / total * 100\<close> rounded to two
  decimals the same way.
\<close>

definition cent_deviation :: "rat \<Rightarrow> rat" where
  "cent_deviation x = \<bar>x - of_int \<lfloor>x * 100 + 1 / 2\<rfloor> / 100\<bar>"

definition percentage_2dp :: "rat \<Rightarrow> rat \<Rightarrow> rat" where
  "percentage_2dp totalSalary advance =
     of_int \<lfloor>advance / totalSalary * 100 * 100 + 1 / 2\<rfloor> / 100"

section \<open>Evaluating the rounding on numerals\<close>

lemma bitlen_one: "bitlen 1 = 1"
  by (subst compute_bitlen) simp

lemma bitlen_Bit0: "bitlen (numeral (Num.Bit0 n)) = bitlen (numeral n) + 1"
  by (subst compute_bitlen) simp

lemma bitlen_Bit1: "bitlen (numeral (Num.Bit1 n)) = bitlen (numeral n) + 1"
  by (subst compute_bitlen) simp

lemma floor_rat_numeral: "\<lfloor>numeral a / numeral b :: rat\<rfloor> = numeral a div numeral b"
  by (metis floor_divide_of_int_eq of_int_numeral)

lemma floor_rat_neg_numeral:
  "\<lfloor>- (numeral a / numeral b) :: rat\<rfloor> = - numeral a div numeral b"
  by (metis divide_minus_left floor_divide_of_int_eq of_int_neg_numeral of_int_numeral)

lemma ceiling_rat_numeral: "\<lceil>numeral a / numeral b :: rat\<rceil> = - (- numeral a div numeral b)"
  by (simp add: ceiling_def floor_rat_neg_numeral)

lemma floor_rat_one_numeral: "\<lfloor>1 / numeral b :: rat\<rfloor> = 1 div numeral b"
  by (metis floor_divide_of_int_eq of_int_1 of_int_numeral)

lemmas fl_eval = fl_def quantum_def ilog2_def round_half_even_def Let_def
  bitlen_one bitlen_Bit0 bitlen_Bit1 floor_rat_numeral floor_rat_neg_numeral ceiling_rat_numeral
  floor_rat_one_numeral

lemmas js_cmp = js_le_def js_eq_def js_gt_def

section \<open>Signs through the rounding\<close>

lemma fl_not_NaN: "fl x \<noteq> NaN"
  by (simp add: fl_def Let_def)

lemma quantum_pos: "0 < quantum x"
  by (simp add: quantum_def)

lemma round_half_even_nonneg: "0 \<le> y \<Longrightarrow> 0 \<le> round_half_even y"
  by (auto simp: round_half_even_def Let_def)

lemma fl_nonneg: "0 \<le> x \<Longrightarrow> fl x = PInf \<or> (\<exists>y. fl x = Fin y \<and> 0 \<le> y)"
proof -
  assume x: "0 \<le> x"
  have "0 \<le> x / quantum x" using x quantum_pos [of x] by simp
  then have "0 \<le> round_half_even (x / quantum x)" by (rule round_half_even_nonneg)
  then have "0 \<le> rat_of_int (round_half_even (x / quantum x)) * quantum x"
    using quantum_pos [of x] by simp
  then show ?thesis by (auto simp: fl_def Let_def)
qed

lemma nonneg_num_simps:
  "nonneg_num PInf" "\<not> nonneg_num NInf" "\<not> nonneg_num NaN"
  "nonneg_num (Fin y) \<longleftrightarrow> 0 \<le> y"
  by (simp_all add: nonneg_num_def)

lemma nonneg_fl: "0 \<le> x \<Longrightarrow> nonneg_num (fl x)"
  using fl_nonneg [of x] by (auto simp: nonneg_num_def)

lemma nonneg_scale_round:
  assumes "nonneg_num d"
  shows "nonneg_num (js_div (js_round (js_mul d (Fin 100))) (Fin 100))"
proof (cases "d = PInf")
  case True
  then show ?thesis by (simp add: nonneg_num_def)
next
  case False
  then obtain y where d: "d = Fin y" and y: "0 \<le> y"
    using assms by (auto simp: nonneg_num_def)
  have scaled: "nonneg_num (fl (y * 100))" using y by (intro nonneg_fl) simp
  show ?thesis
  proof (cases "fl (y * 100) = PInf")
    case True
    then show ?thesis using d by (simp add: nonneg_num_def)
  next
    case False
    then obtain p where p: "fl (y * 100) = Fin p" and p0: "0 \<le> p"
      using scaled by (auto simp: nonneg_num_def)
    have "0 \<le> rat_of_int \<lfloor>p + 1 / 2\<rfloor> / 100" using p0 by simp
    then have "nonneg_num (fl (rat_of_int \<lfloor>p + 1 / 2\<rfloor> / 100))" by (rule nonneg_fl)
    then show ?thesis using d p by simp
  qed
qed

lemma js_le_Fin0: "js_le (Fin 0) x \<longleftrightarrow> nonneg_num x"
  by (cases x) (auto simp: js_le_def js_eq_def nonneg_num_def)

lemma nonneg_not_lt0: "nonneg_num x \<Longrightarrow> \<not> js_lt x (Fin 0)"
  by (auto simp: nonneg_num_def)

lemma js_le_not_gt: "js_le a t \<Longrightarrow> \<not> js_gt a t"
  by (cases a; cases t) (auto simp: js_le_def js_eq_def js_gt_def)

lemma js_le_trans_nonneg: "nonneg_num a \<Longrightarrow> js_le a t \<Longrightarrow> nonneg_num t"
  by (cases a; cases t) (auto simp: js_le_def js_eq_def nonneg_num_def)

lemma nonneg_sub:
  assumes "nonneg_num a" "js_le a t" "\<not> (t = PInf \<and> a = PInf)"
  shows "nonneg_num (js_sub t a)"
  using assms
  by (cases a; cases t) (auto simp: js_le_def js_eq_def nonneg_num_simps intro: nonneg_fl)

section \<open>The error of one rounding\<close>

text \<open>
  \<open>ilog2\<close> does not overshoot: \<open>2 ^ ilog2 x \<le> x\<close>. So an exact result below
  \<open>2 ^ (k + 1)\<close> is rounded with a spacing of at most \<open>2 ^ (k - 52)\<close>, to a finite value
  at most \<open>2 ^ (k - 53)\<close> away.
\<close>

lemma ilog2_lower_ge1:
  assumes "1 \<le> x"
  shows "2 powi (ilog2 x) \<le> x"
proof -
  let ?n = "\<lfloor>x\<rfloor>"
  have n: "0 < ?n" using assms by linarith
  have b: "1 \<le> bitlen ?n" using n bitlen_eq_zero_iff [of ?n] bitlen_nonneg [of ?n] by linarith
  have "(2::int) ^ nat (bitlen ?n - 1) \<le> ?n" using bitlen_bounds [OF n] by simp
  then have "rat_of_int (2 ^ nat (bitlen ?n - 1)) \<le> rat_of_int ?n" by (simp only: of_int_le_iff)
  also have "\<dots> \<le> x" by simp
  finally have "(2::rat) ^ nat (bitlen ?n - 1) \<le> x" by simp
  moreover have "(2::rat) powi (bitlen ?n - 1) = 2 ^ nat (bitlen ?n - 1)"
    using b by (simp add: power_int_nonneg_exp)
  ultimately show ?thesis using assms by (simp add: ilog2_def)
qed

lemma ilog2_lower_lt1:
  assumes "0 < x" "x < 1"
  shows "2 powi (ilog2 x) \<le> x"
proof -
  let ?n = "\<lceil>1 / x\<rceil> - 1"
  have "1 < 1 / x" using assms by simp
  then have n: "0 < ?n" by linarith
  have b: "0 \<le> bitlen ?n" by (rule bitlen_nonneg)
  have "?n < 2 ^ nat (bitlen ?n)" using bitlen_bounds [OF n] by simp
  then have "\<lceil>1 / x\<rceil> \<le> 2 ^ nat (bitlen ?n)" by simp
  then have "rat_of_int \<lceil>1 / x\<rceil> \<le> rat_of_int (2 ^ nat (bitlen ?n))" by (simp only: of_int_le_iff)
  moreover have "1 / x \<le> rat_of_int \<lceil>1 / x\<rceil>" by (rule le_of_int_ceiling)
  ultimately have "1 / x \<le> rat_of_int (2 ^ nat (bitlen ?n))" by (rule order_trans [rotated])
  then have "1 / x \<le> 2 ^ nat (bitlen ?n)" by simp
  then have "1 \<le> 2 ^ nat (bitlen ?n) * x" using assms(1) by (simp add: field_simps)
  then have "1 / 2 ^ nat (bitlen ?n) \<le> x" by (simp add: field_simps)
  moreover have "(2::rat) powi (- bitlen ?n) = 1 / 2 ^ nat (bitlen ?n)"
    using b by (simp add: power_int_minus_divide power_int_nonneg_exp)
  ultimately show ?thesis using assms by (simp add: ilog2_def)
qed

lemma ilog2_lower: "0 < x \<Longrightarrow> 2 powi (ilog2 x) \<le> x"
  using ilog2_lower_ge1 [of x] ilog2_lower_lt1 [of x] by (cases "1 \<le> x") auto

lemma ilog2_le:
  assumes "0 < x" "x < 2 powi (k + 1)"
  shows "ilog2 x \<le> k"
proof (rule ccontr)
  assume "\<not> ilog2 x \<le> k"
  then have "k + 1 \<le> ilog2 x" by simp
  then have "(2::rat) powi (k + 1) \<le> 2 powi (ilog2 x)" by (intro power_int_increasing) simp_all
  also have "\<dots> \<le> x" using assms(1) by (rule ilog2_lower)
  finally show False using assms(2) by simp
qed

lemma round_choice_error:
  fixes r :: rat
  assumes "0 \<le> r" "r < 1"
  shows "\<bar>rat_of_int (if r < 1 / 2 then f else if 1 / 2 < r then f + 1
            else if even f then f else f + 1) - (rat_of_int f + r)\<bar> \<le> 1 / 2"
  using assms by (auto simp: abs_if)

lemma round_half_even_error: "\<bar>rat_of_int (round_half_even y) - y\<bar> \<le> 1 / 2"
proof -
  define r where "r = y - rat_of_int \<lfloor>y\<rfloor>"
  have r: "0 \<le> r" "r < 1" unfolding r_def by linarith+
  have y: "y = rat_of_int \<lfloor>y\<rfloor> + r" by (simp add: r_def)
  have "round_half_even y = (if r < 1 / 2 then \<lfloor>y\<rfloor> else if 1 / 2 < r then \<lfloor>y\<rfloor> + 1
            else if even \<lfloor>y\<rfloor> then \<lfloor>y\<rfloor> else \<lfloor>y\<rfloor> + 1)"
    by (simp add: round_half_even_def Let_def r_def)
  then show ?thesis using round_choice_error [OF r, of "\<lfloor>y\<rfloor>"] y by simp
qed

lemma quantum_le:
  assumes "\<bar>x\<bar> < 2 powi (k + 1)" "- 1022 \<le> k" "x \<noteq> 0"
  shows "quantum x \<le> 2 powi (k - 52)"
proof -
  have "ilog2 \<bar>x\<bar> \<le> k" using assms by (intro ilog2_le) simp_all
  then have "max (ilog2 \<bar>x\<bar>) (- 1022) - 52 \<le> k - 52" using assms(2) by simp
  then show ?thesis unfolding quantum_def by (intro power_int_increasing) simp_all
qed

lemma fl_error:
  assumes "\<bar>x\<bar> < 2 powi (k + 1)" "- 1022 \<le> k" "k \<le> 1022"
  shows "\<exists>y. fl x = Fin y \<and> \<bar>y - x\<bar> \<le> 2 powi (k - 53)"
proof (cases "x = 0")
  case True
  then show ?thesis by (simp add: fl_def)
next
  case False
  let ?q = "quantum x"
  let ?y = "rat_of_int (round_half_even (x / ?q)) * ?q"
  have q0: "0 < ?q" by (rule quantum_pos)
  have q: "?q \<le> 2 powi (k - 52)" using assms(1,2) False by (rule quantum_le)
  have "?y - x = (rat_of_int (round_half_even (x / ?q)) - x / ?q) * ?q"
    using q0 by (simp add: field_simps)
  then have "\<bar>?y - x\<bar> = \<bar>rat_of_int (round_half_even (x / ?q)) - x / ?q\<bar> * \<bar>?q\<bar>"
    by (simp only: abs_mult)
  also have "\<dots> = \<bar>rat_of_int (round_half_even (x / ?q)) - x / ?q\<bar> * ?q"
    using q0 by simp
  also have "\<dots> \<le> 1 / 2 * ?q"
    using q0 round_half_even_error [of "x / ?q"] by (intro mult_right_mono) simp_all
  also have "\<dots> \<le> 1 / 2 * 2 powi (k - 52)" using q by simp
  also have "\<dots> = 2 powi (k - 53)"
    using power_int_add [of "2::rat" "k - 53" 1] by simp
  finally have err: "\<bar>?y - x\<bar> \<le> 2 powi (k - 53)" .
  have "(2::rat) powi (k - 53) \<le> 2 powi (k + 1)" by (intro power_int_increasing) simp_all
  then have "\<bar>?y\<bar> < 2 powi (k + 1) + 2 powi (k + 1)" using err assms(1) by linarith
  also have "\<dots> = 2 powi (k + 2)" using power_int_add [of "2::rat" "k + 1" 1] by (simp add: add.commute)
  also have "\<dots> \<le> 2 powi 1024" using assms(3) by (intro power_int_increasing) simp_all
  finally have "\<bar>?y\<bar> < 2 ^ 1024" by simp
  then have "\<not> 2 ^ 1024 \<le> ?y" "\<not> ?y \<le> - (2 ^ 1024)" by linarith+
  then have "fl x = Fin ?y" using False by (simp add: fl_def Let_def)
  then show ?thesis using err by simp
qed

text \<open>
  Four roundings make the remaining salary: the subtraction, the scaling by 100,
  \<open>Math.round\<close> and the division by 100. Below \<open>2 ^ 43\<close> they add up to less than
  0.0071.
\<close>

lemma remaining_error:
  assumes "0 \<le> a" "a \<le> t" "t < 2 ^ 43"
  shows "\<exists>r. js_div (js_round (js_mul (js_sub (Fin t) (Fin a)) (Fin 100))) (Fin 100) = Fin r \<and>
             0 \<le> r \<and> \<bar>r - (t - a)\<bar> \<le> 71 / 10000"
proof -
  have "\<bar>t - a\<bar> < 2 powi (42 + 1)" using assms by simp
  then obtain d where d: "fl (t - a) = Fin d" and d_err: "\<bar>d - (t - a)\<bar> \<le> 2 powi (42 - 53)"
    using fl_error [of "t - a" 42] by auto
  have d_err': "\<bar>d - (t - a)\<bar> \<le> 1 / 2048" using d_err by simp
  have "\<bar>d * 100\<bar> < 2 powi (49 + 1)" using d_err' assms by (simp add: abs_if split: if_splits)
  then obtain p where p: "fl (d * 100) = Fin p" and p_err: "\<bar>p - d * 100\<bar> \<le> 2 powi (49 - 53)"
    using fl_error [of "d * 100" 49] by auto
  have p_err': "\<bar>p - d * 100\<bar> \<le> 1 / 16" using p_err by simp
  define k where "k = \<lfloor>p + 1 / 2\<rfloor>"
  have k_lo: "rat_of_int k \<le> p + 1 / 2" and k_hi: "p + 1 / 2 < rat_of_int k + 1"
    unfolding k_def by linarith+
  have "\<bar>rat_of_int k / 100\<bar> < 2 powi (43 + 1)"
    using k_lo k_hi p_err' d_err' assms by (simp add: abs_if split: if_splits)
  then obtain r where r: "fl (rat_of_int k / 100) = Fin r"
    and r_err: "\<bar>r - rat_of_int k / 100\<bar> \<le> 2 powi (43 - 53)"
    using fl_error [of "rat_of_int k / 100" 43] by auto
  have r_err': "\<bar>r - rat_of_int k / 100\<bar> \<le> 1 / 1024" using r_err by simp
  have nonneg: "nonneg_num (js_div (js_round (js_mul (js_sub (Fin t) (Fin a)) (Fin 100))) (Fin 100))"
    using assms by (intro nonneg_scale_round nonneg_sub) (auto simp: nonneg_num_simps js_cmp)
  have eq: "js_div (js_round (js_mul (js_sub (Fin t) (Fin a)) (Fin 100))) (Fin 100) = Fin r"
    using d p r by (simp add: k_def)
  have "0 \<le> r" using nonneg unfolding eq by (simp add: nonneg_num_simps)
  moreover have "\<bar>r - (t - a)\<bar> \<le> 71 / 10000"
    using r_err' k_lo k_hi p_err' d_err' by (simp add: abs_if split: if_splits)
  ultimately show ?thesis using eq by blast
qed

lemma fl_cent: "fl (1 / 100) = Fin (5764607523034235 / 2 ^ 59)"
  by (simp add: fl_eval)


section \<open>The remaining salary under its precondition\<close>

lemma remaining_returns:
  assumes "js_le (Fin 0) a" "js_le a t"
  shows "calculateRemainingSalary (JNum t) (JNum a) =
           Inr (js_div (js_round (js_mul (js_sub t a) (Fin 100))) (Fin 100))"
proof -
  have a: "nonneg_num a" using assms(1) by (simp add: js_le_Fin0)
  then have t: "nonneg_num t" using assms(2) by (rule js_le_trans_nonneg)
  show ?thesis
    using nonneg_not_lt0 [OF a] nonneg_not_lt0 [OF t] js_le_not_gt [OF assms(2)]
    by (simp add: calculateRemainingSalary_def)
qed

lemma remaining_nonneg:
  assumes "js_le (Fin 0) a" "js_le a t" "\<not> (t = PInf \<and> a = PInf)"
  shows "nonneg_num (js_div (js_round (js_mul (js_sub t a) (Fin 100))) (Fin 100))"
proof -
  have "nonneg_num a" using assms(1) by (simp add: js_le_Fin0)
  then have "nonneg_num (js_sub t a)" using assms(2,3) by (rule nonneg_sub)
  then show ?thesis by (rule nonneg_scale_round)
qed

text \<open>
  Claim C1, as amended. For numbers with \<open>total \<ge> 0\<close>, \<open>advance \<ge> 0\<close> and
  \<open>advance \<le> total\<close>, \<open>calculateRemainingSalary\<close> does not fail and returns
  \<open>Math.round((total - advance) * 100) / 100\<close>; the result is not negative (and not
  \<open>NaN\<close>) unless both amounts are \<open>+\<infinity>\<close>; and for finite amounts with
  \<open>total < 2^43\<close> it is a finite value between 0 and \<open>total - advance + 0.01\<close>. The
  function reads nothing but its two arguments, so equal arguments give equal results.
\<close>

theorem C1_remaining_salary:
  "(js_le (Fin 0) t \<and> js_le (Fin 0) a \<and> js_le a t \<longrightarrow>
      calculateRemainingSalary (JNum t) (JNum a) =
        Inr (js_div (js_round (js_mul (js_sub t a) (Fin 100))) (Fin 100)) \<and>
      (\<not> (t = PInf \<and> a = PInf) \<longrightarrow>
         js_le (Fin 0) (js_div (js_round (js_mul (js_sub t a) (Fin 100))) (Fin 100)))) \<and>
   (0 \<le> y \<and> y \<le> x \<and> x < 2 ^ 43 \<longrightarrow>
      (\<exists>r. calculateRemainingSalary (JNum (Fin x)) (JNum (Fin y)) = Inr (Fin r) \<and>
           0 \<le> r \<and> r \<le> x - y + 1 / 100))"
proof (intro conjI impI)
  assume h: "js_le (Fin 0) t \<and> js_le (Fin 0) a \<and> js_le a t"
  then show "calculateRemainingSalary (JNum t) (JNum a) =
        Inr (js_div (js_round (js_mul (js_sub t a) (Fin 100))) (Fin 100))"
    by (simp add: remaining_returns)
  assume "\<not> (t = PInf \<and> a = PInf)"
  with h show "js_le (Fin 0) (js_div (js_round (js_mul (js_sub t a) (Fin 100))) (Fin 100))"
    by (simp add: js_le_Fin0 [of "js_div _ _"] remaining_nonneg)
next
  assume h: "0 \<le> y \<and> y \<le> x \<and> x < 2 ^ 43"
  then obtain r where r: "js_div (js_round (js_mul (js_sub (Fin x) (Fin y)) (Fin 100))) (Fin 100) = Fin r"
    and r0: "0 \<le> r" and r_err: "\<bar>r - (x - y)\<bar> \<le> 71 / 10000"
    using remaining_error [of y x] by blast
  have "calculateRemainingSalary (JNum (Fin x)) (JNum (Fin y)) = Inr (Fin r)"
    using h r by (subst remaining_returns) (auto simp: js_cmp)
  moreover have "r \<le> x - y + 1 / 100" using r_err by (simp add: abs_if split: if_splits)
  ultimately show "\<exists>r. calculateRemainingSalary (JNum (Fin x)) (JNum (Fin y)) = Inr (Fin r) \<and>
           0 \<le> r \<and> r \<le> x - y + 1 / 100"
    using r0 by blast
qed

theorem C1_remaining_salary_witness:
  "js_le (Fin 0) (Fin (1 / 2 ^ 7)) \<and> js_le (Fin 0) (Fin 0) \<and> js_le (Fin 0) (Fin (1 / 2 ^ 7)) \<and>
   calculateRemainingSalary (JNum (Fin (1 / 2 ^ 7))) (JNum (Fin 0)) =
     Inr (js_div (js_round (js_mul (js_sub (Fin (1 / 2 ^ 7)) (Fin 0)) (Fin 100))) (Fin 100)) \<and>
   (0::rat) \<le> 2000 \<and> (2000::rat) \<le> 5000 \<and> (5000::rat) < 2 ^ 43 \<and>
   (\<exists>r. calculateRemainingSalary (JNum (Fin 5000)) (JNum (Fin 2000)) = Inr (Fin r) \<and>
        0 \<le> r \<and> r \<le> 5000 - 2000 + 1 / 100)"
  using C1_remaining_salary [of "Fin (1 / 2 ^ 7)" "Fin 0" 2000 5000]
  by (simp add: js_cmp)


text \<open>
  The upper bound \<open>total\<close> of the claim as it was stated fails where rounding to the
  cent goes up: the total \<open>0.0078125\<close> with no advance leaves \<open>0.01\<close>.
\<close>

theorem C1_result_above_total:
  "is_double (1 / 2 ^ 7) \<and>
   js_le (Fin 0) (Fin (1 / 2 ^ 7)) \<and> js_le (Fin 0) (Fin 0) \<and> js_le (Fin 0) (Fin (1 / 2 ^ 7)) \<and>
   calculateRemainingSalary (JNum (Fin (1 / 2 ^ 7))) (JNum (Fin 0)) =
     Inr (Fin (5764607523034235 / 2 ^ 59)) \<and>
   \<not> js_le (Fin (5764607523034235 / 2 ^ 59)) (Fin (1 / 2 ^ 7))"
  by (simp add: is_double_def calculateRemainingSalary_def js_cmp fl_eval)

text \<open>
  Claim C3, as amended. For finite amounts with \<open>0 \<le> advance \<le> total < 2^43\<close>, the
  advance plus the remaining salary differs from the total by at most 0.01: as exact
  numbers, and as the test \<open>Math.abs(advance + remaining - total) < 0.01\<close> computes it.
\<close>

theorem C3_sum_within_tolerance:
  assumes "0 \<le> a" "a \<le> t" "t < 2 ^ 43"
  shows "\<exists>r. calculateRemainingSalary (JNum (Fin t)) (JNum (Fin a)) = Inr (Fin r) \<and>
             \<bar>a + r - t\<bar> \<le> 1 / 100 \<and>
             js_lt (js_abs (js_sub (js_add (Fin a) (Fin r)) (Fin t))) (fl (1 / 100))"
proof -
  obtain r where r: "js_div (js_round (js_mul (js_sub (Fin t) (Fin a)) (Fin 100))) (Fin 100) = Fin r"
    and r0: "0 \<le> r" and r_err: "\<bar>r - (t - a)\<bar> \<le> 71 / 10000"
    using remaining_error [OF assms] by blast
  have ret: "calculateRemainingSalary (JNum (Fin t)) (JNum (Fin a)) = Inr (Fin r)"
    using assms r by (subst remaining_returns) (auto simp: js_cmp)
  have "\<bar>a + r\<bar> < 2 powi (43 + 1)" using r_err r0 assms by (simp add: abs_if split: if_splits)
  then obtain s where s: "fl (a + r) = Fin s" and s_err: "\<bar>s - (a + r)\<bar> \<le> 2 powi (43 - 53)"
    using fl_error [of "a + r" 43] by auto
  have s_err': "\<bar>s - (a + r)\<bar> \<le> 1 / 1024" using s_err by simp
  have "\<bar>s - t\<bar> < 2 powi (- 7 + 1)"
    using s_err' r_err by (simp add: power_int_minus_divide abs_if split: if_splits)
  then obtain v where v: "fl (s - t) = Fin v" and v_err: "\<bar>v - (s - t)\<bar> \<le> 2 powi (- 7 - 53)"
    using fl_error [of "s - t" "- 7"] by auto
  have v_err': "\<bar>v - (s - t)\<bar> \<le> 1 / 2 ^ 60" using v_err by (simp add: power_int_minus_divide)
  have "\<bar>v\<bar> < 5764607523034235 / 2 ^ 59"
    using v_err' s_err' r_err by (simp add: abs_if split: if_splits)
  then have "js_lt (js_abs (js_sub (js_add (Fin a) (Fin r)) (Fin t))) (fl (1 / 100))"
    unfolding fl_cent by (simp add: s v)
  moreover have "\<bar>a + r - t\<bar> \<le> 1 / 100" using r_err by (simp add: abs_if split: if_splits)
  ultimately show ?thesis using ret by blast
qed

theorem C3_sum_within_tolerance_witness:
  "(0::rat) \<le> 2000 \<and> (2000::rat) \<le> 5000 \<and> (5000::rat) < 2 ^ 43 \<and>
   (\<exists>r. calculateRemainingSalary (JNum (Fin 5000)) (JNum (Fin 2000)) = Inr (Fin r) \<and>
        \<bar>2000 + r - 5000\<bar> \<le> 1 / 100 \<and>
        js_lt (js_abs (js_sub (js_add (Fin 2000) (Fin r)) (Fin 5000))) (fl (1 / 100)))"
  using C3_sum_within_tolerance [of 2000 5000] by simp


text \<open>
  The claim as it was stated fails for large amounts. The pair \<open>(2^53, 2)\<close> passes
  \<open>validateAdvanceAmount\<close>; scaling \<open>2^53 - 2\<close> by 100 is rounded, and the remaining
  salary comes back as \<open>2^53 - 3\<close>, so the sum misses the total by 1.
\<close>

theorem C3_large_pair_off_by_one:
  "is_double 9007199254740992 \<and> is_double 2 \<and>
   validateAdvanceAmount (JNum (Fin 9007199254740992)) (JNum (Fin 2)) = Inr True \<and>
   js_le (Fin 0) (Fin 2) \<and> js_le (Fin 2) (Fin 9007199254740992) \<and>
   calculateRemainingSalary (JNum (Fin 9007199254740992)) (JNum (Fin 2)) =
     Inr (Fin 9007199254740989) \<and>
   js_add (Fin 2) (Fin 9007199254740989) = Fin 9007199254740991 \<and>
   js_abs (js_sub (Fin 9007199254740991) (Fin 9007199254740992)) = Fin 1 \<and>
   \<not> js_le (Fin 1) (fl (1 / 100))"
proof -
  have "validateAdvanceAmount (JNum (Fin 9007199254740992)) (JNum (Fin 2)) = Inr True"
    by (simp add: validateAdvanceAmount_def validateMonetaryAmount_def js_cmp fl_eval)
  moreover have "calculateRemainingSalary (JNum (Fin 9007199254740992)) (JNum (Fin 2)) =
     Inr (Fin 9007199254740989)"
    by (simp add: calculateRemainingSalary_def js_cmp fl_eval)
  moreover have "js_add (Fin 2) (Fin 9007199254740989) = Fin 9007199254740991"
    by (simp add: fl_eval)
  moreover have "js_abs (js_sub (Fin 9007199254740991) (Fin 9007199254740992)) = Fin 1"
    by (simp add: fl_eval)
  moreover have "\<not> js_le (Fin 1) (fl (1 / 100))"
    by (simp add: js_cmp fl_eval)
  moreover have "is_double 9007199254740992" "is_double 2"
    by (simp_all add: is_double_def fl_eval)
  ultimately show ?thesis by (simp add: js_cmp)
qed


section \<open>Payment status\<close>

text \<open>
  Claim C2. For numbers with \<open>0 \<le> advance \<le> total\<close> the remaining salary is computed
  without failure and the status follows the three rules in their order: \<open>Paid\<close> when
  the remaining salary is zero; otherwise \<open>Partially Paid\<close> when the advance and the
  remaining salary are positive; otherwise \<open>Pending\<close> when the advance is zero. The
  zero check comes first, so a zero salary with a zero advance is \<open>Paid\<close>.
\<close>

theorem C2_status_precedence:
  "(js_le (Fin 0) a \<and> js_le a t \<longrightarrow>
      (\<exists>r. calculateRemainingSalary (JNum t) (JNum a) = Inr r \<and>
         (js_eq r (Fin 0) \<longrightarrow> determinePaymentStatus (JNum t) (JNum a) = Inr ''Paid'') \<and>
         (\<not> js_eq r (Fin 0) \<and> js_gt a (Fin 0) \<and> js_gt r (Fin 0) \<longrightarrow>
            determinePaymentStatus (JNum t) (JNum a) = Inr ''Partially Paid'') \<and>
         (\<not> js_eq r (Fin 0) \<and> \<not> (js_gt a (Fin 0) \<and> js_gt r (Fin 0)) \<and> js_eq a (Fin 0) \<longrightarrow>
            determinePaymentStatus (JNum t) (JNum a) = Inr ''Pending''))) \<and>
   determinePaymentStatus (JNum (Fin 0)) (JNum (Fin 0)) = Inr ''Paid''"
proof (intro conjI impI)
  assume "js_le (Fin 0) a \<and> js_le a t"
  then have "calculateRemainingSalary (JNum t) (JNum a) =
      Inr (js_div (js_round (js_mul (js_sub t a) (Fin 100))) (Fin 100))"
    by (simp add: remaining_returns)
  then show "\<exists>r. calculateRemainingSalary (JNum t) (JNum a) = Inr r \<and>
         (js_eq r (Fin 0) \<longrightarrow> determinePaymentStatus (JNum t) (JNum a) = Inr ''Paid'') \<and>
         (\<not> js_eq r (Fin 0) \<and> js_gt a (Fin 0) \<and> js_gt r (Fin 0) \<longrightarrow>
            determinePaymentStatus (JNum t) (JNum a) = Inr ''Partially Paid'') \<and>
         (\<not> js_eq r (Fin 0) \<and> \<not> (js_gt a (Fin 0) \<and> js_gt r (Fin 0)) \<and> js_eq a (Fin 0) \<longrightarrow>
            determinePaymentStatus (JNum t) (JNum a) = Inr ''Pending'')"
    by (simp add: determinePaymentStatus_def)
next
  show "determinePaymentStatus (JNum (Fin 0)) (JNum (Fin 0)) = Inr ''Paid''"
    by (simp add: determinePaymentStatus_def calculateRemainingSalary_def js_cmp fl_eval)
qed

theorem C2_status_precedence_witness:
  "js_le (Fin 0) (Fin 2000) \<and> js_le (Fin 2000) (Fin 5000) \<and>
   calculateRemainingSalary (JNum (Fin 5000)) (JNum (Fin 2000)) = Inr (Fin 3000) \<and>
   determinePaymentStatus (JNum (Fin 5000)) (JNum (Fin 2000)) = Inr ''Partially Paid''"
  using C2_status_precedence [of "Fin 2000" "Fin 5000"]
  by (simp add: calculateRemainingSalary_def js_cmp fl_eval)

text \<open>
  Claim C5, as amended. For numbers with \<open>0 \<le> advance \<le> total\<close> that are not both
  \<open>+\<infinity>\<close>, the status is one of \<open>Paid\<close>, \<open>Partially Paid\<close> and \<open>Pending\<close>: the defensive
  failure is not reached.
\<close>

theorem C5_status_classified:
  assumes "js_le (Fin 0) a" "js_le a t" "\<not> (t = PInf \<and> a = PInf)"
  shows "determinePaymentStatus (JNum t) (JNum a) \<in>
           {Inr ''Paid'', Inr ''Partially Paid'', Inr ''Pending''}"
proof -
  let ?r = "js_div (js_round (js_mul (js_sub t a) (Fin 100))) (Fin 100)"
  have r: "nonneg_num ?r" using assms by (rule remaining_nonneg)
  have a: "nonneg_num a" using assms(1) by (simp add: js_le_Fin0)
  have r': "js_eq ?r (Fin 0) \<or> js_gt ?r (Fin 0)"
    using r by (auto simp: nonneg_num_def js_eq_def js_gt_def)
  have a': "js_eq a (Fin 0) \<or> js_gt a (Fin 0)"
    using a by (auto simp: nonneg_num_def js_eq_def js_gt_def)
  show ?thesis
    using r' a' by (auto simp: determinePaymentStatus_def remaining_returns [OF assms(1,2)])
qed

theorem C5_status_classified_witness:
  "js_le (Fin 0) (Fin 0) \<and> js_le (Fin 0) PInf \<and> \<not> (PInf = PInf \<and> Fin 0 = PInf) \<and>
   determinePaymentStatus (JNum PInf) (JNum (Fin 0)) \<in>
     {Inr ''Paid'', Inr ''Partially Paid'', Inr ''Pending''}"
  using C5_status_classified [of "Fin 0" PInf] by (simp add: js_cmp)

text \<open>
  The claim as it was stated fails where both amounts are \<open>+\<infinity>\<close>: they are numbers,
  non-negative, and the advance does not exceed the total, yet the difference is
  \<open>NaN\<close> and the defensive failure is what the function returns.
\<close>

theorem C5_infinite_pair_unclassified:
  "is_number (JNum PInf) \<and> js_le (Fin 0) PInf \<and> js_le PInf PInf \<and>
   determinePaymentStatus (JNum PInf) (JNum PInf) =
     Inl (Error ''Unable to determine payment status with given inputs'')"
  by (simp add: determinePaymentStatus_def calculateRemainingSalary_def js_cmp)

section \<open>The live calculation against the engine\<close>

lemma roundMoney_zero: "js_div (js_round (js_mul (Fin 0) (Fin 100))) (Fin 100) = Fin 0"
  by (simp add: fl_eval)

lemma nonneg_cases: "nonneg_num x \<Longrightarrow> js_eq x (Fin 0) \<or> js_gt x (Fin 0)"
  by (auto simp: nonneg_num_def js_eq_def js_gt_def)

lemma nonneg_or_zero: "nonneg_num x \<Longrightarrow> or_zero x = x"
  by (auto simp: nonneg_num_def)

lemma js_eq_gt_excl: "js_eq x (Fin 0) \<Longrightarrow> \<not> js_gt x (Fin 0)"
  by (cases x) (auto simp: js_eq_def js_gt_def)


text \<open>
  Claim C4, as amended. On numbers with \<open>0 \<le> advance \<le> total\<close> the live calculation
  of the form and the engine compute the same remaining amount. They give the same
  status when moreover the total is positive, the two amounts are not both \<open>+\<infinity>\<close>,
  and the remaining amount rounds to zero only if the difference is zero.
\<close>

theorem C4_live_calculation:
  "(js_le (Fin 0) a \<and> js_le a t \<longrightarrow>
      calculateRemainingSalary (JNum t) (JNum a) =
        Inr (remainingSalary (calculateRealTimeValues t a))) \<and>
   (js_le (Fin 0) a \<and> js_le a t \<and> js_gt t (Fin 0) \<and> \<not> (t = PInf \<and> a = PInf) \<and>
    (js_eq (js_div (js_round (js_mul (js_sub t a) (Fin 100))) (Fin 100)) (Fin 0) \<longrightarrow>
       js_eq (js_sub t a) (Fin 0)) \<longrightarrow>
      determinePaymentStatus (JNum t) (JNum a) =
        Inr (paymentStatus (calculateRealTimeValues t a)))"
proof (intro conjI impI)
  assume h: "js_le (Fin 0) a \<and> js_le a t"
  then have a: "nonneg_num a" by (simp add: js_le_Fin0)
  then have t: "nonneg_num t" using h js_le_trans_nonneg by blast
  show "calculateRemainingSalary (JNum t) (JNum a) =
        Inr (remainingSalary (calculateRealTimeValues t a))"
    using h nonneg_not_lt0 [OF a] nonneg_not_lt0 [OF t] js_le_not_gt [of a t]
    by (simp add: remaining_returns calculateRealTimeValues_def nonneg_or_zero [OF a]
        nonneg_or_zero [OF t] Let_def)
next
  let ?d = "js_sub t a"
  let ?r = "js_div (js_round (js_mul ?d (Fin 100))) (Fin 100)"
  assume h: "js_le (Fin 0) a \<and> js_le a t \<and> js_gt t (Fin 0) \<and> \<not> (t = PInf \<and> a = PInf) \<and>
    (js_eq ?r (Fin 0) \<longrightarrow> js_eq ?d (Fin 0))"
  then have a: "nonneg_num a" by (simp add: js_le_Fin0)
  then have t: "nonneg_num t" using h js_le_trans_nonneg by blast
  have d: "nonneg_num ?d" using a h by (intro nonneg_sub) auto
  have r: "nonneg_num ?r" using d by (rule nonneg_scale_round)
  have zero: "js_eq ?r (Fin 0) \<longleftrightarrow> js_eq ?d (Fin 0)"
    using h roundMoney_zero by (auto simp: js_eq_def)
  have pos: "js_gt ?r (Fin 0) \<longleftrightarrow> js_gt ?d (Fin 0)"
    using zero nonneg_cases [OF r] nonneg_cases [OF d] js_eq_gt_excl [of ?r] js_eq_gt_excl [of ?d]
    by blast
  have ret: "calculateRemainingSalary (JNum t) (JNum a) = Inr ?r"
    using h by (simp add: remaining_returns)
  show "determinePaymentStatus (JNum t) (JNum a) =
        Inr (paymentStatus (calculateRealTimeValues t a))"
    using h zero pos nonneg_cases [OF a] nonneg_cases [OF r]
      nonneg_not_lt0 [OF a] nonneg_not_lt0 [OF t] js_le_not_gt [of a t]
    by (auto simp: determinePaymentStatus_def ret calculateRealTimeValues_def
        nonneg_or_zero [OF a] nonneg_or_zero [OF t] Let_def)
qed

theorem C4_live_calculation_witness:
  "js_le (Fin 0) (Fin 2000) \<and> js_le (Fin 2000) (Fin 5000) \<and> js_gt (Fin 5000) (Fin 0) \<and>
   \<not> (Fin 5000 = PInf \<and> Fin 2000 = PInf) \<and>
   \<not> js_eq (js_div (js_round (js_mul (js_sub (Fin 5000) (Fin 2000)) (Fin 100))) (Fin 100)) (Fin 0) \<and>
   calculateRemainingSalary (JNum (Fin 5000)) (JNum (Fin 2000)) =
     Inr (remainingSalary (calculateRealTimeValues (Fin 5000) (Fin 2000))) \<and>
   determinePaymentStatus (JNum (Fin 5000)) (JNum (Fin 2000)) =
     Inr (paymentStatus (calculateRealTimeValues (Fin 5000) (Fin 2000)))"
proof -
  have "js_div (js_round (js_mul (js_sub (Fin 5000) (Fin 2000)) (Fin 100))) (Fin 100) = Fin 3000"
    by (simp add: fl_eval)
  then show ?thesis
    using C4_live_calculation [of "Fin 2000" "Fin 5000"] by (simp add: js_cmp)
qed


text \<open>
  The claim as it was stated fails at \<open>(0, 0)\<close>: the engine answers \<open>Paid\<close>, the live
  calculation \<open>Pending\<close>, because its \<open>Paid\<close> rule also asks for a positive total.
\<close>

theorem C4_zero_pair_differs:
  "js_le (Fin 0) (Fin 0) \<and> js_le (Fin 0) (Fin 0) \<and>
   determinePaymentStatus (JNum (Fin 0)) (JNum (Fin 0)) = Inr ''Paid'' \<and>
   paymentStatus (calculateRealTimeValues (Fin 0) (Fin 0)) = ''Pending''"
  by (simp add: determinePaymentStatus_def calculateRemainingSalary_def
      calculateRealTimeValues_def js_cmp fl_eval)


text \<open>
  The live calculation classifies the unrounded difference, the engine the rounded one:
  a pair that \<open>validateAdvanceAmount\<close> accepts and whose difference rounds to zero,
  such as \<open>(0.001, 0)\<close>, is \<open>Paid\<close> for the engine and \<open>Pending\<close> for the form.
\<close>

lemma sub_cent_pair_differs:
  "validateAdvanceAmount (JNum (Fin (1152921504606847 / 2 ^ 60))) (JNum (Fin 0)) = Inr True \<and>
   determinePaymentStatus (JNum (Fin (1152921504606847 / 2 ^ 60))) (JNum (Fin 0)) = Inr ''Paid'' \<and>
   paymentStatus (calculateRealTimeValues (Fin (1152921504606847 / 2 ^ 60)) (Fin 0)) = ''Pending''"
  by (simp add: validateAdvanceAmount_def validateMonetaryAmount_def determinePaymentStatus_def
      calculateRemainingSalary_def calculateRealTimeValues_def js_cmp fl_eval)

section \<open>Validation\<close>

lemma validateMonetaryAmount_cases:
  "validateMonetaryAmount v (Some l) = Inr True \<or>
   validateMonetaryAmount v (Some l) = Inl (Error (l @ '' must be a number'')) \<or>
   validateMonetaryAmount v (Some l) = Inl (Error (l @ '' must be a finite number'')) \<or>
   validateMonetaryAmount v (Some l) = Inl (Error (l @ '' cannot be negative'')) \<or>
   validateMonetaryAmount v (Some l) = Inl (Error (l @ '' must have at most 2 decimal places''))"
  by (simp add: validateMonetaryAmount_def Let_def)

text \<open>
  Claim C7, as amended. \<open>validateAdvanceAmount\<close> reports the failure of the total
  (labelled \<open>Total monthly salary\<close>) first, then that of the advance (labelled
  \<open>Advance amount paid\<close>), and compares the two only when both have passed. A finite
  negative total fails as negative on \<open>Total monthly salary\<close> whatever the advance is,
  and \<open>-\<infinity>\<close> fails as not finite on the same label. The advance-exceeds-total failure
  occurs exactly when both amounts pass \<open>validateMonetaryAmount\<close> and the advance is
  the greater.
\<close>

theorem C7_validateAdvanceAmount_order:
  "(\<forall>e. validateMonetaryAmount t (Some ''Total monthly salary'') = Inl e \<longrightarrow>
        validateAdvanceAmount t a = Inl e) \<and>
   (\<forall>e. validateMonetaryAmount t (Some ''Total monthly salary'') = Inr True \<and>
        validateMonetaryAmount a (Some ''Advance amount paid'') = Inl e \<longrightarrow>
        validateAdvanceAmount t a = Inl e) \<and>
   (\<forall>x. x < 0 \<longrightarrow> validateAdvanceAmount (JNum (Fin x)) a =
        Inl (Error ''Total monthly salary cannot be negative'')) \<and>
   validateAdvanceAmount (JNum NInf) a =
     Inl (Error ''Total monthly salary must be a finite number'') \<and>
   (validateAdvanceAmount t a =
      Inl (Error ''Advance amount cannot exceed total monthly salary'') \<longleftrightarrow>
      validateMonetaryAmount t (Some ''Total monthly salary'') = Inr True \<and>
      validateMonetaryAmount a (Some ''Advance amount paid'') = Inr True \<and>
      js_gt (num_of a) (num_of t))"
proof (intro conjI allI impI)
  show "validateAdvanceAmount t a =
      Inl (Error ''Advance amount cannot exceed total monthly salary'') \<longleftrightarrow>
      validateMonetaryAmount t (Some ''Total monthly salary'') = Inr True \<and>
      validateMonetaryAmount a (Some ''Advance amount paid'') = Inr True \<and>
      js_gt (num_of a) (num_of t)"
    using validateMonetaryAmount_cases [of t "''Total monthly salary''"]
      validateMonetaryAmount_cases [of a "''Advance amount paid''"]
    by (auto simp: validateAdvanceAmount_def)
qed (simp_all add: validateAdvanceAmount_def validateMonetaryAmount_def)

theorem C7_validateAdvanceAmount_order_witness:
  "(- 5000 :: rat) < 0 \<and> js_gt (Fin 2000) (Fin (- 5000)) \<and>
   validateAdvanceAmount (JNum (Fin (- 5000))) (JNum (Fin 2000)) =
     Inl (Error ''Total monthly salary cannot be negative'')"
  using C7_validateAdvanceAmount_order [of "JNum (Fin (- 5000))" "JNum (Fin 2000)"]
  by (simp add: js_gt_def)

text \<open>
  The claim as it was stated fails at the negative total \<open>-\<infinity>\<close>: the finiteness check
  comes before the sign check, so the failure is the not-finite one, not the negative
  one.
\<close>

theorem C7_negative_infinity_total:
  "js_lt NInf (Fin 0) \<and> js_gt (Fin 5) NInf \<and>
   validateAdvanceAmount (JNum NInf) (JNum (Fin 5)) =
     Inl (Error ''Total monthly salary must be a finite number'') \<and>
   validateAdvanceAmount (JNum NInf) (JNum (Fin 5)) \<noteq>
     Inl (Error ''Total monthly salary cannot be negative'')"
  by (simp add: validateAdvanceAmount_def validateMonetaryAmount_def js_gt_def)

lemma fl_milli: "fl (1 / 1000) = Fin (1152921504606847 / 2 ^ 60)"
  by (simp add: fl_eval)

lemma validate_finite:
  "0 \<le> x \<Longrightarrow> validateMonetaryAmount (JNum (Fin x)) label =
     (if js_gt (js_abs (js_sub (Fin x) (js_div (js_round (js_mul (Fin x) (Fin 100))) (Fin 100))))
            (fl (1 / 1000))
      then Inl (Error (or_default label ''amount'' @ '' must have at most 2 decimal places''))
      else Inr True)"
  by (simp add: validateMonetaryAmount_def Let_def)

lemma rounded_amount:
  assumes "0 \<le> x" "x < 2 ^ 33"
  shows "\<exists>p r. fl (x * 100) = Fin p \<and> \<bar>p - x * 100\<bar> \<le> 1 / 2 ^ 14 \<and>
           fl (rat_of_int \<lfloor>p + 1 / 2\<rfloor> / 100) = Fin r \<and>
           \<bar>r - rat_of_int \<lfloor>p + 1 / 2\<rfloor> / 100\<bar> \<le> 1 / 2 ^ 20"
proof -
  have "\<bar>x * 100\<bar> < 2 powi (39 + 1)" using assms by (simp add: abs_if)
  then obtain p where p: "fl (x * 100) = Fin p" and p_err: "\<bar>p - x * 100\<bar> \<le> 2 powi (39 - 53)"
    using fl_error [of "x * 100" 39] by auto
  have p_err': "\<bar>p - x * 100\<bar> \<le> 1 / 2 ^ 14" using p_err by (simp add: power_int_minus_divide)
  define k where "k = \<lfloor>p + 1 / 2\<rfloor>"
  have k_lo: "rat_of_int k \<le> p + 1 / 2" and k_hi: "p + 1 / 2 < rat_of_int k + 1"
    unfolding k_def by linarith+
  have "\<bar>rat_of_int k / 100\<bar> < 2 powi (33 + 1)"
    using k_lo k_hi p_err' assms by (simp add: abs_if split: if_splits)
  then obtain r where r: "fl (rat_of_int k / 100) = Fin r"
    and r_err: "\<bar>r - rat_of_int k / 100\<bar> \<le> 2 powi (33 - 53)"
    using fl_error [of "rat_of_int k / 100" 33] by auto
  have "\<bar>r - rat_of_int k / 100\<bar> \<le> 1 / 2 ^ 20" using r_err by (simp add: power_int_minus_divide)
  then show ?thesis using p p_err' r unfolding k_def by blast
qed

lemma tolerance_complete:
  assumes "0 \<le> x" "x < 2 ^ 33" "cent_deviation x \<le> 999 / 1000000"
  shows "validateMonetaryAmount (JNum (Fin x)) label = Inr True"
proof -
  obtain p r where p: "fl (x * 100) = Fin p" and p_err: "\<bar>p - x * 100\<bar> \<le> 1 / 2 ^ 14"
    and r: "fl (rat_of_int \<lfloor>p + 1 / 2\<rfloor> / 100) = Fin r"
    and r_err: "\<bar>r - rat_of_int \<lfloor>p + 1 / 2\<rfloor> / 100\<bar> \<le> 1 / 2 ^ 20"
    using rounded_amount [OF assms(1,2)] by blast
  define n where "n = \<lfloor>x * 100 + 1 / 2\<rfloor>"
  have dev: "\<bar>x - rat_of_int n / 100\<bar> \<le> 999 / 1000000"
    using assms(3) by (simp add: cent_deviation_def n_def)
  have "rat_of_int n \<le> p + 1 / 2" "p + 1 / 2 < rat_of_int n + 1"
    using dev p_err by (simp_all add: abs_if split: if_splits)
  then have k: "\<lfloor>p + 1 / 2\<rfloor> = n" by (intro floor_unique)
  have xr: "\<bar>x - r\<bar> \<le> 999 / 1000000 + 1 / 2 ^ 20"
    using dev r_err unfolding k by (simp add: abs_if split: if_splits)
  then have "\<bar>x - r\<bar> < 2 powi (- 10 + 1)" by (simp add: power_int_minus_divide)
  then obtain v where v: "fl (x - r) = Fin v" and v_err: "\<bar>v - (x - r)\<bar> \<le> 2 powi (- 10 - 53)"
    using fl_error [of "x - r" "- 10"] by auto
  have v_err': "\<bar>v - (x - r)\<bar> \<le> 1 / 2 ^ 63" using v_err by (simp add: power_int_minus_divide)
  have "\<bar>v\<bar> \<le> 1152921504606847 / 2 ^ 60"
    using v_err' xr by (simp add: abs_if split: if_splits)
  then have "\<not> js_gt (js_abs (js_sub (Fin x) (js_div (js_round (js_mul (Fin x) (Fin 100))) (Fin 100))))
            (fl (1 / 1000))"
    unfolding fl_milli by (simp add: p r v js_gt_def)
  then show ?thesis using assms(1) by (simp add: validate_finite)
qed

lemma tolerance_sound:
  assumes "0 \<le> x" "x < 2 ^ 33" "validateMonetaryAmount (JNum (Fin x)) label = Inr True"
  shows "cent_deviation x \<le> 1001 / 1000000"
proof -
  obtain p r where p: "fl (x * 100) = Fin p" and p_err: "\<bar>p - x * 100\<bar> \<le> 1 / 2 ^ 14"
    and r: "fl (rat_of_int \<lfloor>p + 1 / 2\<rfloor> / 100) = Fin r"
    and r_err: "\<bar>r - rat_of_int \<lfloor>p + 1 / 2\<rfloor> / 100\<bar> \<le> 1 / 2 ^ 20"
    using rounded_amount [OF assms(1,2)] by blast
  define k where "k = \<lfloor>p + 1 / 2\<rfloor>"
  have k_lo: "rat_of_int k \<le> p + 1 / 2" and k_hi: "p + 1 / 2 < rat_of_int k + 1"
    unfolding k_def by linarith+
  have "\<bar>x - r\<bar> < 2 powi (33 + 1)"
    using r_err k_lo k_hi p_err assms(1,2) unfolding k_def [symmetric]
    by (simp add: abs_if split: if_splits)
  then obtain v where v: "fl (x - r) = Fin v" and v_err: "\<bar>v - (x - r)\<bar> \<le> 2 powi (33 - 53)"
    using fl_error [of "x - r" 33] by auto
  have v_err': "\<bar>v - (x - r)\<bar> \<le> 1 / 2 ^ 20" using v_err by (simp add: power_int_minus_divide)
  have "\<not> js_gt (js_abs (js_sub (Fin x) (js_div (js_round (js_mul (Fin x) (Fin 100))) (Fin 100))))
            (fl (1 / 1000))"
    using assms(1,3) by (simp add: validate_finite split: if_splits)
  then have v_le: "\<bar>v\<bar> \<le> 1152921504606847 / 2 ^ 60"
    unfolding fl_milli by (simp add: p r v js_gt_def)
  have "\<bar>x - r\<bar> < 2 powi (- 10 + 1)"
    using v_le v_err' by (simp add: power_int_minus_divide abs_if split: if_splits)
  then obtain w where w: "fl (x - r) = Fin w" and w_err: "\<bar>w - (x - r)\<bar> \<le> 2 powi (- 10 - 53)"
    using fl_error [of "x - r" "- 10"] by auto
  have "w = v" using v w by simp
  then have v_err2: "\<bar>v - (x - r)\<bar> \<le> 1 / 2 ^ 63" using w_err by (simp add: power_int_minus_divide)
  have xk: "\<bar>x - rat_of_int k / 100\<bar> \<le> 1001 / 1000000"
    using v_le v_err2 r_err unfolding k_def [symmetric] by (simp add: abs_if split: if_splits)
  then have "rat_of_int k \<le> x * 100 + 1 / 2" "x * 100 + 1 / 2 < rat_of_int k + 1"
    by (simp_all add: abs_if split: if_splits)
  then have "\<lfloor>x * 100 + 1 / 2\<rfloor> = k" by (intro floor_unique)
  then show ?thesis using xk by (simp add: cent_deviation_def)
qed

text \<open>
  Claim C6, as amended. \<open>validateMonetaryAmount\<close> fails with the first failure kind
  that applies, in the order not a number, not finite, negative; a finite non-negative
  number either passes or fails for excess precision; and the message of every failure
  starts with the field label (\<open>amount\<close> when no label is passed). The precision test
  is computed in binary64: for a finite amount with \<open>0 \<le> amount < 2^33\<close> it passes
  whenever rounding the amount to the nearest 0.01 changes it by at most 0.000999, and
  only if it changes it by at most 0.001001.
\<close>

theorem C6_validateMonetaryAmount:
  "(\<not> is_number amount \<longrightarrow>
      validateMonetaryAmount amount label =
        Inl (failure_message NotANumber (or_default label ''amount''))) \<and>
   (is_number amount \<and> \<not> js_isFinite (num_of amount) \<longrightarrow>
      validateMonetaryAmount amount label =
        Inl (failure_message NotFinite (or_default label ''amount''))) \<and>
   (is_number amount \<and> js_isFinite (num_of amount) \<and> js_lt (num_of amount) (Fin 0) \<longrightarrow>
      validateMonetaryAmount amount label =
        Inl (failure_message Negative (or_default label ''amount''))) \<and>
   (is_number amount \<and> js_isFinite (num_of amount) \<and> \<not> js_lt (num_of amount) (Fin 0) \<longrightarrow>
      validateMonetaryAmount amount label = Inr True \<or>
      validateMonetaryAmount amount label =
        Inl (failure_message ExcessPrecision (or_default label ''amount''))) \<and>
   (\<forall>e. validateMonetaryAmount amount label = Inl e \<longrightarrow>
        prefix (or_default label ''amount'') (message_of e)) \<and>
   (0 \<le> x \<and> x < 2 ^ 33 \<and> cent_deviation x \<le> 999 / 1000000 \<longrightarrow>
      validateMonetaryAmount (JNum (Fin x)) label = Inr True) \<and>
   (0 \<le> x \<and> x < 2 ^ 33 \<and> validateMonetaryAmount (JNum (Fin x)) label = Inr True \<longrightarrow>
      cent_deviation x \<le> 1001 / 1000000)"
proof (intro conjI impI allI)
  fix e
  assume "validateMonetaryAmount amount label = Inl e"
  then show "prefix (or_default label ''amount'') (message_of e)"
    by (auto simp: validateMonetaryAmount_def Let_def split: if_splits)
next
  assume "0 \<le> x \<and> x < 2 ^ 33 \<and> cent_deviation x \<le> 999 / 1000000"
  then show "validateMonetaryAmount (JNum (Fin x)) label = Inr True"
    by (simp add: tolerance_complete)
next
  assume "0 \<le> x \<and> x < 2 ^ 33 \<and> validateMonetaryAmount (JNum (Fin x)) label = Inr True"
  then show "cent_deviation x \<le> 1001 / 1000000"
    using tolerance_sound [of x label] by simp
qed (simp_all add: validateMonetaryAmount_def Let_def)

theorem C6_validateMonetaryAmount_witness:
  "validateMonetaryAmount (JStr ''5000'') (Some ''salary'') = Inl (Error ''salary must be a number'') \<and>
   validateMonetaryAmount (JNum NaN) (Some ''salary'') = Inl (Error ''salary must be a finite number'') \<and>
   validateMonetaryAmount (JNum (Fin (- 100))) (Some ''salary'') = Inl (Error ''salary cannot be negative'') \<and>
   prefix ''salary'' (message_of (Error ''salary cannot be negative'')) \<and>
   (0::rat) \<le> 5000 \<and> (5000::rat) < 2 ^ 33 \<and> cent_deviation 5000 \<le> 999 / 1000000 \<and>
   validateMonetaryAmount (JNum (Fin 5000)) (Some ''salary'') = Inr True \<and>
   cent_deviation 5000 \<le> 1001 / 1000000"
  using C6_validateMonetaryAmount [of "JStr ''5000''" "Some ''salary''" 5000]
    C6_validateMonetaryAmount [of "JNum NaN" "Some ''salary''" 5000]
    C6_validateMonetaryAmount [of "JNum (Fin (- 100))" "Some ''salary''" 5000]
  by (simp add: cent_deviation_def floor_rat_numeral)

text \<open>
  Where scaling by 100 overflows, the computed rounding is \<open>+\<infinity>\<close> and the amount is
  rejected for its precision.
\<close>

lemma scaled_overflow: "js_mul (Fin (2 ^ 1020)) (Fin 100) = PInf"
  by (simp add: fl_eval)

lemma huge_amount_rejected:
  "validateMonetaryAmount (JNum (Fin (2 ^ 1020))) None =
     Inl (Error ''amount must have at most 2 decimal places'')"
  unfolding validateMonetaryAmount_def Let_def num_of.simps scaled_overflow
  by (simp add: js_cmp fl_eval)

text \<open>
  The claim as it was stated, with the exact rounding, fails for large amounts:
  \<open>2^1020\<close> is finite, non-negative and a whole number, and is rejected for its
  precision; \<open>2^44 + 3/256\<close> is 0.00171875 away from the nearest 0.01 and passes.
\<close>

theorem C6_tolerance_not_exact:
  "is_double (2 ^ 1020) \<and> js_isFinite (Fin (2 ^ 1020)) \<and> \<not> js_lt (Fin (2 ^ 1020)) (Fin 0) \<and>
   cent_deviation (2 ^ 1020) = 0 \<and>
   validateMonetaryAmount (JNum (Fin (2 ^ 1020))) None =
     Inl (Error ''amount must have at most 2 decimal places'') \<and>
   is_double (2 ^ 44 + 3 / 256) \<and>
   cent_deviation (2 ^ 44 + 3 / 256) = 11 / 6400 \<and> \<not> (11 / 6400 \<le> (1 / 1000 :: rat)) \<and>
   validateMonetaryAmount (JNum (Fin (2 ^ 44 + 3 / 256))) None = Inr True"
proof -
  have "is_double (2 ^ 1020)" by (simp add: is_double_def fl_eval)
  moreover have "cent_deviation (2 ^ 1020) = 0"
    by (simp add: cent_deviation_def floor_rat_numeral)
  moreover have "is_double (2 ^ 44 + 3 / 256)" by (simp add: is_double_def fl_eval)
  moreover have "cent_deviation (2 ^ 44 + 3 / 256) = 11 / 6400"
    by (simp add: cent_deviation_def floor_rat_numeral)
  moreover have "validateMonetaryAmount (JNum (Fin (2 ^ 44 + 3 / 256))) None = Inr True"
    by (simp add: validateMonetaryAmount_def js_cmp fl_eval)
  ultimately show ?thesis using huge_amount_rejected by simp
qed

text \<open>
  Claim C10. \<open>calculateRemainingSalary\<close> returns a value exactly when both arguments
  are numbers, neither is below zero and the advance is not above the total: there is no
  finiteness check and no precision check. So it (and \<open>determinePaymentStatus\<close>)
  returns a value for \<open>100.123\<close> and for \<open>+\<infinity>\<close> with a zero advance, both of which
  \<open>validateMonetaryAmount\<close> rejects.
\<close>

theorem C10_no_finiteness_or_precision_check:
  "((\<exists>r. calculateRemainingSalary t a = Inr r) \<longleftrightarrow>
      is_number t \<and> is_number a \<and> \<not> js_lt (num_of t) (Fin 0) \<and> \<not> js_lt (num_of a) (Fin 0) \<and>
      \<not> js_gt (num_of a) (num_of t)) \<and>
   fl (100123 / 1000) = Fin (7045529773300253 / 2 ^ 46) \<and>
   validateMonetaryAmount (JNum (Fin (7045529773300253 / 2 ^ 46))) None =
     Inl (Error ''amount must have at most 2 decimal places'') \<and>
   calculateRemainingSalary (JNum (Fin (7045529773300253 / 2 ^ 46))) (JNum (Fin 0)) =
     Inr (Fin (880664833383465 / 2 ^ 43)) \<and>
   determinePaymentStatus (JNum (Fin (7045529773300253 / 2 ^ 46))) (JNum (Fin 0)) = Inr ''Pending'' \<and>
   validateMonetaryAmount (JNum PInf) None = Inl (Error ''amount must be a finite number'') \<and>
   calculateRemainingSalary (JNum PInf) (JNum (Fin 0)) = Inr PInf \<and>
   determinePaymentStatus (JNum PInf) (JNum (Fin 0)) = Inr ''Pending''"
proof -
  have remaining:
    "calculateRemainingSalary (JNum (Fin (7045529773300253 / 2 ^ 46))) (JNum (Fin 0)) =
       Inr (Fin (880664833383465 / 2 ^ 43))"
    by (simp add: calculateRemainingSalary_def js_cmp fl_eval)
  have remaining_inf: "calculateRemainingSalary (JNum PInf) (JNum (Fin 0)) = Inr PInf"
    by (simp add: calculateRemainingSalary_def js_cmp)
  have "(\<exists>r. calculateRemainingSalary t a = Inr r) \<longleftrightarrow>
      is_number t \<and> is_number a \<and> \<not> js_lt (num_of t) (Fin 0) \<and> \<not> js_lt (num_of a) (Fin 0) \<and>
      \<not> js_gt (num_of a) (num_of t)"
    by (auto simp: calculateRemainingSalary_def Let_def)
  moreover have "fl (100123 / 1000) = Fin (7045529773300253 / 2 ^ 46)"
    by (simp add: fl_eval)
  moreover have "validateMonetaryAmount (JNum (Fin (7045529773300253 / 2 ^ 46))) None =
     Inl (Error ''amount must have at most 2 decimal places'')"
    by (simp add: validateMonetaryAmount_def js_cmp fl_eval)
  moreover have
    "determinePaymentStatus (JNum (Fin (7045529773300253 / 2 ^ 46))) (JNum (Fin 0)) = Inr ''Pending''"
    unfolding determinePaymentStatus_def remaining by (simp add: js_cmp)
  moreover have "validateMonetaryAmount (JNum PInf) None = Inl (Error ''amount must be a finite number'')"
    by (simp add: validateMonetaryAmount_def)
  moreover have "determinePaymentStatus (JNum PInf) (JNum (Fin 0)) = Inr ''Pending''"
    unfolding determinePaymentStatus_def remaining_inf by (simp add: js_cmp)
  ultimately show ?thesis using remaining remaining_inf by blast
qed

theorem C10_no_finiteness_or_precision_check_witness:
  "(\<exists>r. calculateRemainingSalary (JNum NaN) (JNum NaN) = Inr r) \<and>
   \<not> (\<exists>r. calculateRemainingSalary (JNum (Fin 3000)) (JNum (Fin 5000)) = Inr r)"
  using C10_no_finiteness_or_precision_check [of "JNum NaN" "JNum NaN"]
    C10_no_finiteness_or_precision_check [of "JNum (Fin 3000)" "JNum (Fin 5000)"]
  by (simp add: js_gt_def)

section \<open>Advance percentage\<close>

lemma fl_Fin_nonneg: "fl z = Fin w \<Longrightarrow> 0 \<le> z \<Longrightarrow> 0 \<le> w"
  using fl_nonneg [of z] by auto

lemma valid_pair_numbers:
  assumes "validateAdvanceAmount t a = Inr True"
  shows "\<exists>x y. t = JNum (Fin x) \<and> a = JNum (Fin y) \<and> 0 \<le> y \<and> y \<le> x"
proof -
  have vt: "validateMonetaryAmount t (Some ''Total monthly salary'') = Inr True"
    and va: "validateMonetaryAmount a (Some ''Advance amount paid'') = Inr True"
    and le: "\<not> js_gt (num_of a) (num_of t)"
    using assms validateMonetaryAmount_cases [of t "''Total monthly salary''"]
      validateMonetaryAmount_cases [of a "''Advance amount paid''"]
    by (auto simp: validateAdvanceAmount_def split: if_splits)
  have num: "\<And>v l. validateMonetaryAmount v l = Inr True \<Longrightarrow> \<exists>z. v = JNum (Fin z) \<and> 0 \<le> z"
  proof -
    fix v l
    assume h: "validateMonetaryAmount v l = Inr True"
    then have "is_number v" "js_isFinite (num_of v)" "\<not> js_lt (num_of v) (Fin 0)"
      by (auto simp: validateMonetaryAmount_def Let_def split: if_splits)
    then show "\<exists>z. v = JNum (Fin z) \<and> 0 \<le> z"
      by (cases v; cases "num_of v") auto
  qed
  obtain x where x: "t = JNum (Fin x)" using num [OF vt] by blast
  obtain y where y: "a = JNum (Fin y)" "0 \<le> y" using num [OF va] by blast
  show ?thesis using x y le by (auto simp: js_gt_def)
qed

lemma percentage_error:
  assumes "0 \<le> y" "y \<le> x" "0 < x"
  shows "\<exists>p. js_div (js_round (js_mul (js_mul (js_div (Fin y) (Fin x)) (Fin 100)) (Fin 100)))
               (Fin 100) = Fin p \<and>
             0 \<le> p \<and> \<bar>p - 100 * y / x\<bar> \<le> 1 / 200 + 1 / 10 ^ 12"
proof -
  define z where "z = y / x"
  have z: "0 \<le> z" "z \<le> 1" using assms by (simp_all add: z_def)
  then have "\<bar>z\<bar> < 2 powi (0 + 1)" by simp
  then obtain q where q: "fl z = Fin q" and q_err: "\<bar>q - z\<bar> \<le> 2 powi (0 - 53)"
    using fl_error [of z 0] by auto
  have q_b: "z - 1 / 2 ^ 53 \<le> q" "q \<le> z + 1 / 2 ^ 53"
    using q_err unfolding abs_diff_le_iff by (simp_all add: power_int_minus_divide)
  have q_nn: "0 \<le> q" using q z(1) by (rule fl_Fin_nonneg)
  have "q * 100 < 128" using q_b z by simp
  then have "\<bar>q * 100\<bar> < 2 powi (6 + 1)" using q_nn by simp
  then obtain p1 where p1: "fl (q * 100) = Fin p1" and p1_err: "\<bar>p1 - q * 100\<bar> \<le> 2 powi (6 - 53)"
    using fl_error [of "q * 100" 6] by auto
  have p1_b: "q * 100 - 1 / 2 ^ 47 \<le> p1" "p1 \<le> q * 100 + 1 / 2 ^ 47"
    using p1_err unfolding abs_diff_le_iff by (simp_all add: power_int_minus_divide)
  have p1_nn: "0 \<le> p1" by (rule fl_Fin_nonneg [OF p1]) (simp add: q_nn)
  have "p1 * 100 < 16384" using p1_b q_b z by simp
  then have "\<bar>p1 * 100\<bar> < 2 powi (13 + 1)" using p1_nn by simp
  then obtain p2 where p2: "fl (p1 * 100) = Fin p2" and p2_err: "\<bar>p2 - p1 * 100\<bar> \<le> 2 powi (13 - 53)"
    using fl_error [of "p1 * 100" 13] by auto
  have p2_b: "p1 * 100 - 1 / 2 ^ 40 \<le> p2" "p2 \<le> p1 * 100 + 1 / 2 ^ 40"
    using p2_err unfolding abs_diff_le_iff by (simp_all add: power_int_minus_divide)
  have p2_nn: "0 \<le> p2" by (rule fl_Fin_nonneg [OF p2]) (simp add: p1_nn)
  define k where "k = \<lfloor>p2 + 1 / 2\<rfloor>"
  define kr where "kr = rat_of_int k"
  have k_b: "kr \<le> p2 + 1 / 2" "p2 - 1 / 2 < kr"
    unfolding kr_def k_def by linarith+
  have k_nn: "0 \<le> kr" using p2_nn unfolding kr_def k_def by simp
  have "kr / 100 < 128" using k_b p2_b p1_b q_b z by simp
  then have "\<bar>kr / 100\<bar> < 2 powi (6 + 1)" using k_nn by simp
  then obtain p where p: "fl (kr / 100) = Fin p"
    and p_err: "\<bar>p - kr / 100\<bar> \<le> 2 powi (6 - 53)"
    using fl_error [of "kr / 100" 6] by auto
  have p_b: "kr / 100 - 1 / 2 ^ 47 \<le> p" "p \<le> kr / 100 + 1 / 2 ^ 47"
    using p_err unfolding abs_diff_le_iff by (simp_all add: power_int_minus_divide)
  have p_nn: "0 \<le> p" by (rule fl_Fin_nonneg [OF p]) (simp add: k_nn)
  have eq: "js_div (js_round (js_mul (js_mul (js_div (Fin y) (Fin x)) (Fin 100)) (Fin 100)))
               (Fin 100) = Fin p"
    using assms(3) q p1 p2 p by (simp add: k_def kr_def z_def)
  have "100 * z - (1 / 200 + 1 / 10 ^ 12) \<le> p" "p \<le> 100 * z + (1 / 200 + 1 / 10 ^ 12)"
    using p_b k_b p2_b p1_b q_b by simp_all
  then have "\<bar>p - 100 * z\<bar> \<le> 1 / 200 + 1 / 10 ^ 12" unfolding abs_diff_le_iff by simp
  moreover have "100 * y / x = 100 * z" by (simp add: z_def)
  ultimately show ?thesis using eq p_nn by auto
qed

text \<open>
  Claim C8, as amended. A pair that \<open>validateAdvanceAmount\<close> accepts is a pair of
  finite numbers. On it \<open>calculateAdvancePercentage\<close> returns 0 when the total is
  zero, and otherwise the binary64 value of
  \<open>Math.round(advance / total * 100 * 100) / 100\<close>, which is not negative and within
  \<open>0.005 + 10^-12\<close> of the exact percentage. It returns 0 for \<open>(0, 0)\<close> and
  \<open>33.33\<close> for \<open>(3000, 1000)\<close>.
\<close>

theorem C8_calculateAdvancePercentage:
  "(validateAdvanceAmount t a = Inr True \<longrightarrow>
      (\<exists>x y. t = JNum (Fin x) \<and> a = JNum (Fin y) \<and>
         (x = 0 \<longrightarrow> calculateAdvancePercentage t a = Inr (Fin 0)) \<and>
         (x \<noteq> 0 \<longrightarrow>
            (\<exists>p. calculateAdvancePercentage t a = Inr (Fin p) \<and>
                 Fin p = js_div (js_round (js_mul (js_mul (js_div (Fin y) (Fin x)) (Fin 100))
                           (Fin 100))) (Fin 100) \<and>
                 0 \<le> p \<and> \<bar>p - 100 * y / x\<bar> \<le> 1 / 200 + 1 / 10 ^ 12)))) \<and>
   calculateAdvancePercentage (JNum (Fin 0)) (JNum (Fin 0)) = Inr (Fin 0) \<and>
   calculateAdvancePercentage (JNum (Fin 3000)) (JNum (Fin 1000)) = Inr (fl (3333 / 100))"
proof (intro conjI impI)
  assume v: "validateAdvanceAmount t a = Inr True"
  then obtain x y where t: "t = JNum (Fin x)" and a: "a = JNum (Fin y)"
    and y: "0 \<le> y" "y \<le> x"
    using valid_pair_numbers by blast
  have zero: "x = 0 \<longrightarrow> calculateAdvancePercentage t a = Inr (Fin 0)"
    using v by (auto simp: calculateAdvancePercentage_def t js_eq_def)
  have pos: "x \<noteq> 0 \<longrightarrow>
            (\<exists>p. calculateAdvancePercentage t a = Inr (Fin p) \<and>
                 Fin p = js_div (js_round (js_mul (js_mul (js_div (Fin y) (Fin x)) (Fin 100))
                           (Fin 100))) (Fin 100) \<and>
                 0 \<le> p \<and> \<bar>p - 100 * y / x\<bar> \<le> 1 / 200 + 1 / 10 ^ 12)"
  proof
    assume "x \<noteq> 0"
    then have "0 < x" using y by simp
    then obtain p where p: "js_div (js_round (js_mul (js_mul (js_div (Fin y) (Fin x)) (Fin 100))
        (Fin 100))) (Fin 100) = Fin p"
      and b: "0 \<le> p" "\<bar>p - 100 * y / x\<bar> \<le> 1 / 200 + 1 / 10 ^ 12"
      using percentage_error [OF y] by blast
    have "calculateAdvancePercentage t a = Inr (Fin p)"
      using v \<open>x \<noteq> 0\<close> unfolding calculateAdvancePercentage_def t a
      by (simp add: js_eq_def Let_def p [symmetric] del: js_div.simps js_mul.simps js_round.simps)
    then show "\<exists>p. calculateAdvancePercentage t a = Inr (Fin p) \<and>
                 Fin p = js_div (js_round (js_mul (js_mul (js_div (Fin y) (Fin x)) (Fin 100))
                           (Fin 100))) (Fin 100) \<and>
                 0 \<le> p \<and> \<bar>p - 100 * y / x\<bar> \<le> 1 / 200 + 1 / 10 ^ 12"
      using p b by auto
  qed
  show "\<exists>x y. t = JNum (Fin x) \<and> a = JNum (Fin y) \<and>
         (x = 0 \<longrightarrow> calculateAdvancePercentage t a = Inr (Fin 0)) \<and>
         (x \<noteq> 0 \<longrightarrow>
            (\<exists>p. calculateAdvancePercentage t a = Inr (Fin p) \<and>
                 Fin p = js_div (js_round (js_mul (js_mul (js_div (Fin y) (Fin x)) (Fin 100))
                           (Fin 100))) (Fin 100) \<and>
                 0 \<le> p \<and> \<bar>p - 100 * y / x\<bar> \<le> 1 / 200 + 1 / 10 ^ 12))"
    using t a zero pos by blast
next
  show "calculateAdvancePercentage (JNum (Fin 3000)) (JNum (Fin 1000)) = Inr (fl (3333 / 100))"
    by (simp add: calculateAdvancePercentage_def validateAdvanceAmount_def
        validateMonetaryAmount_def js_cmp fl_eval)
  show "calculateAdvancePercentage (JNum (Fin 0)) (JNum (Fin 0)) = Inr (Fin 0)"
    by (simp add: calculateAdvancePercentage_def validateAdvanceAmount_def
        validateMonetaryAmount_def js_cmp fl_eval)
qed

theorem C8_calculateAdvancePercentage_witness:
  "validateAdvanceAmount (JNum (Fin 5000)) (JNum (Fin 2500)) = Inr True \<and>
   (\<exists>p. calculateAdvancePercentage (JNum (Fin 5000)) (JNum (Fin 2500)) = Inr (Fin p) \<and>
        0 \<le> p \<and> \<bar>p - 100 * 2500 / 5000\<bar> \<le> 1 / 200 + 1 / 10 ^ 12)"
proof -
  have v: "validateAdvanceAmount (JNum (Fin 5000)) (JNum (Fin 2500)) = Inr True"
    by (simp add: validateAdvanceAmount_def validateMonetaryAmount_def js_cmp fl_eval)
  show ?thesis
    using v C8_calculateAdvancePercentage [of "JNum (Fin 5000)" "JNum (Fin 2500)"]
    by auto
qed

text \<open>
  The claim as it was stated, the percentage rounded to two decimals, fails where the
  exact percentage is a tie: for \<open>(160, 23)\<close> it is 14.375, which rounds to 14.38, but
  the computed quotient is just below and the function returns \<open>14.37\<close>.
\<close>

theorem C8_exact_half_rounds_down:
  "validateAdvanceAmount (JNum (Fin 160)) (JNum (Fin 23)) = Inr True \<and>
   100 * 23 / 160 = (14375 / 1000 :: rat) \<and>
   percentage_2dp 160 23 = 1438 / 100 \<and>
   fl (1438 / 100) = Fin (8095220330198467 / 2 ^ 49) \<and>
   fl (1437 / 100) = Fin (8089590830664253 / 2 ^ 49) \<and>
   calculateAdvancePercentage (JNum (Fin 160)) (JNum (Fin 23)) =
     Inr (Fin (8089590830664253 / 2 ^ 49))"
proof -
  have "validateAdvanceAmount (JNum (Fin 160)) (JNum (Fin 23)) = Inr True"
    by (simp add: validateAdvanceAmount_def validateMonetaryAmount_def js_cmp fl_eval)
  moreover have "percentage_2dp 160 23 = 1438 / 100"
    by (simp add: percentage_2dp_def floor_rat_numeral)
  moreover have "fl (1438 / 100) = Fin (8095220330198467 / 2 ^ 49)"
    by (simp add: fl_eval)
  moreover have "fl (1437 / 100) = Fin (8089590830664253 / 2 ^ 49)"
    by (simp add: fl_eval)
  moreover have "calculateAdvancePercentage (JNum (Fin 160)) (JNum (Fin 23)) =
     Inr (Fin (8089590830664253 / 2 ^ 49))"
    by (simp add: calculateAdvancePercentage_def validateAdvanceAmount_def
        validateMonetaryAmount_def js_cmp fl_eval)
  ultimately show ?thesis by simp
qed

section \<open>Display\<close>

text \<open>
  Claim C9. \<open>formatCurrency\<close> never fails, and for an amount that is not a finite
  number (a value of another type, \<open>NaN\<close>, an infinity) it returns the symbol followed
  by \<open>0.00\<close>; the symbol is the one passed, or the fixed default when none is passed.
\<close>

theorem C9_formatCurrency_lenient:
  "(\<exists>s. formatCurrency toLocaleString amount currency = Inr s) \<and>
   (\<not> (is_number amount \<and> js_isFinite (num_of amount)) \<longrightarrow>
      formatCurrency toLocaleString amount currency = Inr (or_default currency rupee @ ''0.00''))"
  by (simp add: formatCurrency_def Let_def)

theorem C9_formatCurrency_lenient_witness:
  "\<not> (is_number (JNum NaN) \<and> js_isFinite (num_of (JNum NaN))) \<and>
   formatCurrency (\<lambda>a. ''1,234.56'') (JNum NaN) (Some ''Rs.'') = Inr ''Rs.0.00'' \<and>
   formatCurrency (\<lambda>a. ''1,234.56'') (JNum PInf) None = Inr (rupee @ ''0.00'') \<and>
   formatCurrency (\<lambda>a. ''1,234.56'') (JStr ''invalid'') None = Inr (rupee @ ''0.00'')"
  using C9_formatCurrency_lenient [of "\<lambda>a. ''1,234.56''" "JNum NaN" "Some ''Rs.''"]
    C9_formatCurrency_lenient [of "\<lambda>a. ''1,234.56''" "JNum PInf" None]
    C9_formatCurrency_lenient [of "\<lambda>a. ''1,234.56''" "JStr ''invalid''" None]
  by simp

end
